theory Spec2Isabelle
  imports Complex_Main "HOL-Library.Sublist"
begin

section \<open>Values thrown and the normalized failure\<close>

text \<open>
  \<^verbatim>\<open>class ApiClientError extends Error\<close> with the constructor parameters
  \<^verbatim>\<open>code\<close>, \<^verbatim>\<open>message\<close> and the optional \<^verbatim>\<open>status\<close> (\<open>None\<close> when the
  constructor is called with two arguments).
\<close>

datatype ApiClientError =
  ApiClientError (code: string) (message: string) (status_code: "nat option")

text \<open>
  What a JavaScript \<^verbatim>\<open>throw\<close> or a rejected promise can carry, as far as the
  \<^verbatim>\<open>instanceof\<close> tests of the client tell values apart: an \<^verbatim>\<open>ApiClientError\<close>,
  another \<^verbatim>\<open>Error\<close> with its \<^verbatim>\<open>name\<close> and \<^verbatim>\<open>message\<close>, or a value that is no
  \<^verbatim>\<open>Error\<close> at all.
\<close>

datatype js_thrown =
    Thrown_ApiClientError ApiClientError
  | Thrown_Error string string
  | Thrown_Other

section \<open>The request helper\<close>

text \<open>
  Modelled from the spec: the type \<^verbatim>\<open>ApiError\<close> is declared in
  \<^verbatim>\<open>$lib/types/api_types\<close>, which is not part of the sources. The spec gives the
  error body of every endpoint as \<^verbatim>\<open>{ code: string, message: string }\<close>.
\<close>

datatype ApiError = ApiError (body_code: string) (body_message: string)

text \<open>
  \<^verbatim>\<open>await response.json()\<close> read at the type its use site declares: the promise
  rejects (no body, or a body that is not JSON) with the value thrown, or it yields a value
  of that type. A body that parses to a value outside the declared type is outside this
  model.
\<close>

datatype 'a json_result = JsonThrows js_thrown | JsonValue 'a

text \<open>
  The parts of a \<^verbatim>\<open>Response\<close> that \<^verbatim>\<open>request\<close> reads. \<open>json_error\<close> is the body
  read as \<^verbatim>\<open>errorData: ApiErrorType\<close>, \<open>json_data\<close> the body read as the type
  parameter \<^verbatim>\<open>T\<close>; \<^verbatim>\<open>request\<close> reads the one that belongs to the branch taken.
\<close>

record 'a Response =
  ok :: bool
  http_status :: nat
  statusText :: string
  json_error :: "ApiError json_result"
  json_data :: "'a json_result"

datatype 'a fetch_result = FetchRejects js_thrown | FetchResponse "'a Response"

text \<open>
  What the network would do with one request if left alone: after \<open>settles_after\<close>
  milliseconds \<^verbatim>\<open>fetch\<close> settles as \<open>settlement\<close>. \<open>abort_message\<close> is the message
  of the \<^verbatim>\<open>DOMException\<close> the platform raises when the signal aborts.
\<close>

record 'a network =
  settles_after :: nat
  settlement :: "'a fetch_result"
  abort_message :: string

definition API_TIMEOUT :: nat where
  "API_TIMEOUT = 30000"

text \<open>
  \<^verbatim>\<open>await fetch(url, config)\<close> with \<^verbatim>\<open>config.signal\<close> set and the timer
  \<^verbatim>\<open>setTimeout(() => controller.abort(), API_TIMEOUT)\<close> running: when \<^verbatim>\<open>fetch\<close> has
  not settled before the timer is due, the signal aborts and \<^verbatim>\<open>fetch\<close> rejects with an
  \<^verbatim>\<open>Error\<close> named \<^verbatim>\<open>AbortError\<close>. The timer is cleared as soon as \<^verbatim>\<open>fetch\<close>
  settles, so reading the body is not timed. A tie is given to the timer.
\<close>

definition fetch :: "'a network \<Rightarrow> 'a fetch_result" where
  "fetch net =
    (if settles_after net < API_TIMEOUT then settlement net
     else FetchRejects (Thrown_Error ''AbortError'' (abort_message net)))"

text \<open>Decimal digits of a natural number, as a template literal prints it.\<close>

fun decimal :: "nat \<Rightarrow> string" where
  "decimal n =
    (if n < 10 then [''0123456789'' ! n]
     else decimal (n div 10) @ [''0123456789'' ! (n mod 10)])"

declare decimal.simps [simp del]

text \<open>
  The \<^verbatim>\<open>try\<close> block of \<^verbatim>\<open>request\<close>: \<open>Inl\<close> is the value thrown inside it, \<open>Inr\<close>
  the value returned.
\<close>

definition request_try :: "'a fetch_result \<Rightarrow> js_thrown + 'a" where
  "request_try f =
    (case f of
       FetchRejects t \<Rightarrow> Inl t
     | FetchResponse response \<Rightarrow>
         if \<not> ok response then
           (let errorData =
              (case json_error response of
                 JsonValue d \<Rightarrow> d
               | JsonThrows _ \<Rightarrow>
                   ApiError ''UNKNOWN_ERROR''
                     (''HTTP '' @ decimal (http_status response) @ '': '' @ statusText response))
            in Inl (Thrown_ApiClientError
                 (ApiClientError (body_code errorData) (body_message errorData)
                    (Some (http_status response)))))
         else
           (case json_data response of
              JsonValue v \<Rightarrow> Inr v
            | JsonThrows t \<Rightarrow> Inl t))"

text \<open>The \<^verbatim>\<open>catch (error)\<close> block of \<^verbatim>\<open>request\<close>: the value it throws.\<close>

definition request_catch :: "js_thrown \<Rightarrow> js_thrown" where
  "request_catch error =
    (case error of
       Thrown_ApiClientError e \<Rightarrow> Thrown_ApiClientError e
     | Thrown_Error name msg \<Rightarrow>
         if name = ''AbortError'' then
           Thrown_ApiClientError (ApiClientError ''TIMEOUT'' ''Request timeout'' None)
         else
           Thrown_ApiClientError
             (ApiClientError ''NETWORK_ERROR'' (''Network error: '' @ msg) None)
     | Thrown_Other \<Rightarrow>
         Thrown_ApiClientError
           (ApiClientError ''UNKNOWN_ERROR'' ''Unknown error occurred'' None))"

definition request :: "'a network \<Rightarrow> js_thrown + 'a" where
  "request net =
    (case request_try (fetch net) of
       Inl error \<Rightarrow> Inl (request_catch error)
     | Inr v \<Rightarrow> Inr v)"

text \<open>
  The three verbs pass an endpoint and options to \<^verbatim>\<open>request\<close> and return its promise;
  the request body is taken to serialize.
\<close>

definition prepareUpload :: "'a network \<Rightarrow> js_thrown + 'a" where
  "prepareUpload net = request net"

definition startPipeline :: "'a network \<Rightarrow> js_thrown + 'a" where
  "startPipeline net = request net"

definition getPipelineStatus :: "'a network \<Rightarrow> js_thrown + 'a" where
  "getPipelineStatus net = request net"

fun is_ApiClientError :: "js_thrown \<Rightarrow> bool" where
  "is_ApiClientError (Thrown_ApiClientError _) = True"
| "is_ApiClientError _ = False"

section \<open>The file upload\<close>

text \<open>The fields of a progress event that the handler reads.\<close>

record ProgressEvent =
  lengthComputable :: bool
  loaded :: nat
  total :: nat

text \<open>The events for which \<^verbatim>\<open>uploadFile\<close> installs a handler.\<close>

datatype xhr_event =
    Progress ProgressEvent
  | Load nat string
  | NetworkError
  | Timeout

datatype xhr_completion = Completes nat string | Fails

text \<open>
  What the transfer would do if left alone: it dispatches \<open>progress_events\<close> while it
  runs and after \<open>completes_after\<close> milliseconds it ends, with a response (status and
  status text) or with a network failure.
\<close>

record transfer =
  progress_events :: "ProgressEvent list"
  completes_after :: nat
  completion :: xhr_completion

definition xhr_timeout :: nat where
  "xhr_timeout = 600000"

text \<open>
  The events the request object dispatches with \<^verbatim>\<open>xhr.timeout = 600000\<close> set: a
  transfer that has not ended when the time is up ends with \<^verbatim>\<open>timeout\<close>. A tie is given
  to the timer.
\<close>

definition xhr_dispatch :: "transfer \<Rightarrow> xhr_event list" where
  "xhr_dispatch tr =
    map Progress (progress_events tr) @
    [if completes_after tr < xhr_timeout then
       (case completion tr of Completes st txt \<Rightarrow> Load st txt | Fails \<Rightarrow> NetworkError)
     else Timeout]"

text \<open>
  A JavaScript number as the progress callback can receive it: dividing by a zero
  \<^verbatim>\<open>total\<close> gives \<^verbatim>\<open>NaN\<close> or \<^verbatim>\<open>Infinity\<close>, which \<^verbatim>\<open>Math.round\<close> returns
  unchanged.
\<close>

datatype js_number = Finite int | Infinity | NaN

text \<open>\<^verbatim>\<open>Math.round\<close> on a finite value: the nearest integer, a tie going up.\<close>

definition Math_round :: "real \<Rightarrow> int" where
  "Math_round x = \<lfloor>x + 1 / 2\<rfloor>"

text \<open>
  \<^verbatim>\<open>Math.round((event.loaded / event.total) * 100)\<close>, first for a nonzero
  \<^verbatim>\<open>total\<close>, where the value is finite. The argument \<open>rnd\<close> is the rounding of a real
  result to a representable number, applied where the platform applies it: to the two
  operands, to the quotient and to the product.
\<close>

definition percentage :: "(real \<Rightarrow> real) \<Rightarrow> ProgressEvent \<Rightarrow> int" where
  "percentage rnd event =
    Math_round (rnd (rnd (rnd (real (loaded event)) / rnd (real (total event))) * 100))"

definition progress :: "(real \<Rightarrow> real) \<Rightarrow> ProgressEvent \<Rightarrow> js_number" where
  "progress rnd event =
    (if total event = 0 then (if loaded event = 0 then NaN else Infinity)
     else Finite (percentage rnd event))"

text \<open>
  The state the handlers share: the arguments \<^verbatim>\<open>onProgress\<close> has received and the
  settlement of the returned promise (\<open>None\<close> while it is pending, \<open>Inr ()\<close> resolved,
  \<open>Inl\<close> rejected).
\<close>

record upload_state =
  progress_calls :: "js_number list"
  promise :: "(js_thrown + unit) option"

text \<open>\<^verbatim>\<open>resolve\<close> and \<^verbatim>\<open>reject\<close>: a promise settles once.\<close>

definition settle :: "upload_state \<Rightarrow> js_thrown + unit \<Rightarrow> upload_state" where
  "settle st r = (if promise st = None then st\<lparr>promise := Some r\<rparr> else st)"

text \<open>
  The handlers \<^verbatim>\<open>xhr.upload.onprogress\<close>, \<^verbatim>\<open>xhr.onload\<close>, \<^verbatim>\<open>xhr.onerror\<close> and
  \<^verbatim>\<open>xhr.ontimeout\<close>; \<open>onProgress\<close> tells whether the optional callback was passed.
\<close>

fun xhr_handler :: "(real \<Rightarrow> real) \<Rightarrow> bool \<Rightarrow> upload_state \<Rightarrow> xhr_event \<Rightarrow> upload_state" where
  "xhr_handler rnd onProgress st (Progress event) =
    (if lengthComputable event \<and> onProgress then
       st\<lparr>progress_calls := progress_calls st @ [progress rnd event]\<rparr>
     else st)"
| "xhr_handler rnd onProgress st (Load xhr_status xhr_statusText) =
    (if xhr_status \<ge> 200 \<and> xhr_status < 300 then settle st (Inr ())
     else settle st (Inl (Thrown_ApiClientError
            (ApiClientError ''UPLOAD_FAILED'' (''Upload failed: '' @ xhr_statusText) None))))"
| "xhr_handler rnd onProgress st NetworkError =
    settle st (Inl (Thrown_ApiClientError
      (ApiClientError ''UPLOAD_ERROR'' ''Upload network error'' None)))"
| "xhr_handler rnd onProgress st Timeout =
    settle st (Inl (Thrown_ApiClientError
      (ApiClientError ''UPLOAD_TIMEOUT'' ''Upload timeout'' None)))"

definition uploadFile :: "(real \<Rightarrow> real) \<Rightarrow> bool \<Rightarrow> transfer \<Rightarrow> upload_state" where
  "uploadFile rnd onProgress tr =
    foldl (xhr_handler rnd onProgress) \<lparr>progress_calls = [], promise = None\<rparr> (xhr_dispatch tr)"

section \<open>The pipeline status poller\<close>

text \<open>
  Modelled from the spec: the type \<^verbatim>\<open>DubbingPipelineStatus\<close> is declared in
  \<^verbatim>\<open>$lib/types/api_types\<close>, which is not part of the sources. The poller reads
  the fields \<^verbatim>\<open>status\<close> and \<^verbatim>\<open>error_message\<close>; the spec names an opaque pipeline
  identifier, a status label and an optional error message. An absent
  \<^verbatim>\<open>error_message\<close> is \<open>None\<close>.
\<close>

record DubbingPipelineStatus =
  pipeline_id :: string
  status :: string
  error_message :: "string option"

text \<open>
  The effects of the poller, in the order in which they happen:
  \<^verbatim>\<open>await this.getPipelineStatus(pipelineId)\<close> together with the way it settled,
  the three callbacks, \<^verbatim>\<open>console.warn\<close> (with the value of \<^verbatim>\<open>consecutiveErrors\<close>
  it prints) and \<^verbatim>\<open>setTimeout(poll, delay)\<close>.
\<close>

datatype poll_event =
    GetPipelineStatus "js_thrown + DubbingPipelineStatus"
  | OnUpdate DubbingPipelineStatus
  | OnComplete DubbingPipelineStatus
  | OnError string
  | ConsoleWarn nat
  | SetTimeout nat

text \<open>
  What the environment supplies to one invocation of the closure \<^verbatim>\<open>poll\<close>: the reading
  of \<^verbatim>\<open>Date.now()\<close> at its start, how \<^verbatim>\<open>getPipelineStatus\<close> settles if it is
  called (\<open>Inl\<close> the value thrown, \<open>Inr\<close> the status returned), and what the caller's
  callbacks do when they are invoked inside the \<^verbatim>\<open>try\<close> block: \<open>None\<close> when the
  callback returns, \<open>Some t\<close> when it throws \<open>t\<close>.
\<close>

record cycle =
  now :: int
  fetched :: "js_thrown + DubbingPipelineStatus"
  onUpdate_throws :: "js_thrown option"
  onComplete_throws :: "js_thrown option"
  onError_throws :: "js_thrown option"

text \<open>
  How an invocation of \<^verbatim>\<open>poll\<close> ends: without a timer (\<open>Stopped\<close>: it returned, or an
  exception of a callback invoked outside the \<^verbatim>\<open>try\<close> block escaped), or with a further
  invocation outstanding, with the value of \<^verbatim>\<open>consecutiveErrors\<close> it will find.
\<close>

datatype poll_end = Stopped | Pending nat

definition pollInterval :: nat where
  "pollInterval = 3000"

definition maxConsecutiveErrors :: nat where
  "maxConsecutiveErrors = 10"

definition maxDuration :: int where
  "maxDuration = 24 * 60 * 60 * 1000"

text \<open>JavaScript truthiness of an optional string: absent and \<^verbatim>\<open>''\<close> are falsy.\<close>

definition truthy :: "string option \<Rightarrow> bool" where
  "truthy m = (case m of None \<Rightarrow> False | Some s \<Rightarrow> s \<noteq> [])"

text \<open>\<^verbatim>\<open>m || d\<close> for an optional string \<open>m\<close>.\<close>

definition or_else :: "string option \<Rightarrow> string \<Rightarrow> string" where
  "or_else m d = (case m of None \<Rightarrow> d | Some s \<Rightarrow> if s \<noteq> [] then s else d)"

text \<open>
  The \<^verbatim>\<open>catch (error)\<close> block of \<^verbatim>\<open>poll\<close>, entered with the given value of
  \<^verbatim>\<open>consecutiveErrors\<close>. Its \<^verbatim>\<open>onError\<close> call is outside every \<^verbatim>\<open>try\<close>: whether it
  returns or throws, no timer is set.
\<close>

definition poll_catch :: "nat \<Rightarrow> js_thrown \<Rightarrow> poll_event list \<times> poll_end" where
  "poll_catch consecutiveErrors error =
    (let n = consecutiveErrors + 1 in
     if n \<ge> maxConsecutiveErrors then
       ([OnError (case error of
             Thrown_ApiClientError e \<Rightarrow> ''Too many consecutive errors: '' @ message e
           | _ \<Rightarrow> ''Too many consecutive errors while checking pipeline status'')],
        Stopped)
     else
       ([ConsoleWarn n, SetTimeout (min (pollInterval * n) 30000)], Pending n))"

text \<open>
  The \<^verbatim>\<open>try\<close> block of \<^verbatim>\<open>poll\<close>: the effects up to the point where it returns
  (\<open>Inr\<close>, with the way the invocation ends) or throws (\<open>Inl\<close>, with the value thrown and
  the value \<^verbatim>\<open>consecutiveErrors\<close> has at that point). A failed call leaves the counter
  as it was; after a successful call it has been reset to 0 before any callback runs.
\<close>

definition poll_try ::
  "nat \<Rightarrow> cycle \<Rightarrow> poll_event list \<times> (js_thrown \<times> nat + poll_end)" where
  "poll_try consecutiveErrors cy =
    (case fetched cy of
       Inl err \<Rightarrow> ([GetPipelineStatus (Inl err)], Inl (err, consecutiveErrors))
     | Inr st \<Rightarrow>
         (case onUpdate_throws cy of
            Some t \<Rightarrow> ([GetPipelineStatus (Inr st), OnUpdate st], Inl (t, 0))
          | None \<Rightarrow>
              if status st = ''completed'' then
                ([GetPipelineStatus (Inr st), OnUpdate st, OnComplete st],
                 case onComplete_throws cy of Some t \<Rightarrow> Inl (t, 0) | None \<Rightarrow> Inr Stopped)
              else if status st = ''failed'' \<or> truthy (error_message st) then
                ([GetPipelineStatus (Inr st), OnUpdate st,
                  OnError (or_else (error_message st) ''Pipeline failed'')],
                 case onError_throws cy of Some t \<Rightarrow> Inl (t, 0) | None \<Rightarrow> Inr Stopped)
              else
                ([GetPipelineStatus (Inr st), OnUpdate st, SetTimeout pollInterval],
                 Inr (Pending 0))))"

text \<open>
  One invocation of the closure \<^verbatim>\<open>poll\<close>, given \<^verbatim>\<open>startTime\<close> and the current value
  of \<^verbatim>\<open>consecutiveErrors\<close>: the ceiling test, then the \<^verbatim>\<open>try\<close> block, and the
  \<^verbatim>\<open>catch\<close> block for whatever the \<^verbatim>\<open>try\<close> block throws.
\<close>

definition poll :: "int \<Rightarrow> nat \<Rightarrow> cycle \<Rightarrow> poll_event list \<times> poll_end" where
  "poll startTime consecutiveErrors cy =
    (if now cy - startTime > maxDuration then
       ([OnError ''Pipeline timeout - maximum duration exceeded (24 hours)''], Stopped)
     else
       (case poll_try consecutiveErrors cy of
          (evs, Inr e) \<Rightarrow> (evs, e)
        | (evs, Inl (error, c)) \<Rightarrow>
            (case poll_catch c error of (evs', e) \<Rightarrow> (evs @ evs', e))))"

text \<open>
  The timer loop: each \<^verbatim>\<open>setTimeout(poll, _)\<close> leads to the next invocation, which
  consumes the next entry of the environment. The result lists the effects of each
  invocation; when the environment is used up the loop is still \<open>Pending\<close>.
\<close>

fun pollLoop :: "int \<Rightarrow> nat \<Rightarrow> cycle list \<Rightarrow> poll_event list list \<times> poll_end" where
  "pollLoop startTime c [] = ([], Pending c)"
| "pollLoop startTime c (cy # cys) =
    (case poll startTime c cy of
       (tr, Stopped) \<Rightarrow> ([tr], Stopped)
     | (tr, Pending c') \<Rightarrow>
         (case pollLoop startTime c' cys of (trs, e) \<Rightarrow> (tr # trs, e)))"

text \<open>
  \<^verbatim>\<open>pollPipelineStatus\<close>: \<^verbatim>\<open>consecutiveErrors\<close> starts at 0 and \<^verbatim>\<open>startTime\<close> is the
  reading of \<^verbatim>\<open>Date.now()\<close> taken before the first invocation.
\<close>

definition pollPipelineStatus :: "int \<Rightarrow> cycle list \<Rightarrow> poll_event list list \<times> poll_end" where
  "pollPipelineStatus startTime cys = pollLoop startTime 0 cys"

text \<open>The flat sequence of effects of a run, and projections of it.\<close>

definition effects :: "poll_event list list \<times> poll_end \<Rightarrow> poll_event list" where
  "effects r = concat (fst r)"


fun is_OnComplete :: "poll_event \<Rightarrow> bool" where
  "is_OnComplete (OnComplete _) = True"
| "is_OnComplete _ = False"

fun is_OnError :: "poll_event \<Rightarrow> bool" where
  "is_OnError (OnError _) = True"
| "is_OnError _ = False"

text \<open>The settlements of the \<^verbatim>\<open>getPipelineStatus\<close> calls of a run, in order.\<close>

fun results :: "poll_event list \<Rightarrow> (js_thrown + DubbingPipelineStatus) list" where
  "results [] = []"
| "results (GetPipelineStatus r # evs) = r # results evs"
| "results (_ # evs) = results evs"

section \<open>Example inputs\<close>

definition example_status :: "string \<Rightarrow> string option \<Rightarrow> DubbingPipelineStatus" where
  "example_status label msg = \<lparr>pipeline_id = ''p-1'', status = label, error_message = msg\<rparr>"

text \<open>A cycle in which every callback returns.\<close>

definition example_cycle :: "int \<Rightarrow> js_thrown + DubbingPipelineStatus \<Rightarrow> cycle" where
  "example_cycle t r =
    \<lparr>now = t, fetched = r, onUpdate_throws = None, onComplete_throws = None,
     onError_throws = None\<rparr>"


text \<open>The callbacks of a cycle return when they are invoked.\<close>

definition callbacks_return :: "cycle \<Rightarrow> bool" where
  "callbacks_return cy =
    (onUpdate_throws cy = None \<and> onComplete_throws cy = None \<and> onError_throws cy = None)"

text \<open>A request that is still unanswered after 45 seconds.\<close>

definition slow_network :: "DubbingPipelineStatus network" where
  "slow_network =
    \<lparr>settles_after = 45000,
     settlement = FetchRejects (Thrown_Error ''TypeError'' ''Failed to fetch''),
     abort_message = ''The operation was aborted.''\<rparr>"

text \<open>A response with the given status, status text and error body, after 120 ms.\<close>

definition error_network ::
  "nat \<Rightarrow> string \<Rightarrow> ApiError json_result \<Rightarrow> DubbingPipelineStatus network" where
  "error_network st txt body =
    \<lparr>settles_after = 120,
     settlement = FetchResponse
       \<lparr>ok = False, http_status = st, statusText = txt, json_error = body,
        json_data = JsonThrows (Thrown_Error ''SyntaxError'' ''Unexpected end of JSON input'')\<rparr>,
     abort_message = ''The operation was aborted.''\<rparr>"

text \<open>A \<^verbatim>\<open>fetch\<close> that rejects with the given value after 120 ms.\<close>

definition failing_network :: "js_thrown \<Rightarrow> DubbingPipelineStatus network" where
  "failing_network t =
    \<lparr>settles_after = 120, settlement = FetchRejects t,
     abort_message = ''The operation was aborted.''\<rparr>"

definition example_transfer :: "nat \<Rightarrow> xhr_completion \<Rightarrow> transfer" where
  "example_transfer t c =
    \<lparr>progress_events =
       [\<lparr>lengthComputable = True, loaded = 0, total = 200\<rparr>,
        \<lparr>lengthComputable = True, loaded = 99, total = 200\<rparr>,
        \<lparr>lengthComputable = False, loaded = 150, total = 200\<rparr>,
        \<lparr>lengthComputable = True, loaded = 200, total = 200\<rparr>],
     completes_after = t, completion = c\<rparr>"

section \<open>Properties of the request helper\<close>


lemma request_timeout:
  assumes "API_TIMEOUT < settles_after net"
  shows "request net =
          Inl (Thrown_ApiClientError (ApiClientError ''TIMEOUT'' ''Request timeout'' None))"
  using assms by (simp add: request_def request_try_def request_catch_def fetch_def)

lemma request_catch_normal: "is_ApiClientError (request_catch t)"
  by (cases t) (auto simp: request_catch_def)

lemma request_normal: "request net = Inl t \<Longrightarrow> is_ApiClientError t"
  by (auto simp: request_def request_catch_normal split: sum.splits)

lemma fetch_example [simp]:
  "fetch slow_network = FetchRejects (Thrown_Error ''AbortError'' ''The operation was aborted.'')"
  "fetch (error_network st txt body) =
     FetchResponse
       \<lparr>ok = False, http_status = st, statusText = txt, json_error = body,
        json_data = JsonThrows (Thrown_Error ''SyntaxError'' ''Unexpected end of JSON input'')\<rparr>"
  "fetch (failing_network t) = FetchRejects t"
  by (simp_all add: fetch_def slow_network_def error_network_def failing_network_def API_TIMEOUT_def)



section \<open>Properties of the file upload\<close>

lemma settle_normal:
  assumes "\<forall>t. promise st = Some (Inl t) \<longrightarrow> is_ApiClientError t"
  shows "\<forall>t. promise (xhr_handler rnd p st ev) = Some (Inl t) \<longrightarrow> is_ApiClientError t"
  using assms by (cases ev) (auto simp: settle_def)

lemma foldl_normal:
  assumes "\<forall>t. promise st = Some (Inl t) \<longrightarrow> is_ApiClientError t"
  shows "\<forall>t. promise (foldl (xhr_handler rnd p) st evs) = Some (Inl t) \<longrightarrow> is_ApiClientError t"
  using assms
proof (induction evs arbitrary: st)
  case Nil
  then show ?case by simp
next
  case (Cons ev evs)
  show ?case
    unfolding foldl_Cons
    by (rule Cons.IH) (rule settle_normal [OF Cons.prems])
qed

lemma upload_normal: "promise (uploadFile rnd p tr) = Some (Inl t) \<Longrightarrow> is_ApiClientError t"
  using foldl_normal [of "\<lparr>progress_calls = [], promise = None\<rparr>" rnd p "xhr_dispatch tr"]
  by (simp add: uploadFile_def)

lemma foldl_progress:
  "foldl (xhr_handler rnd p) st (map Progress evs) =
     st\<lparr>progress_calls := progress_calls st @
          (if p then map (progress rnd) (filter lengthComputable evs) else [])\<rparr>"
  by (induction evs arbitrary: st) auto

lemma upload_promise:
  "promise (uploadFile rnd p tr) =
    Some (if completes_after tr < xhr_timeout then
       (case completion tr of
          Completes st txt \<Rightarrow>
            if st \<ge> 200 \<and> st < 300 then Inr ()
            else Inl (Thrown_ApiClientError
                   (ApiClientError ''UPLOAD_FAILED'' (''Upload failed: '' @ txt) None))
        | Fails \<Rightarrow>
            Inl (Thrown_ApiClientError
              (ApiClientError ''UPLOAD_ERROR'' ''Upload network error'' None)))
     else Inl (Thrown_ApiClientError (ApiClientError ''UPLOAD_TIMEOUT'' ''Upload timeout'' None)))"
  by (cases "completion tr")
    (simp_all add: uploadFile_def xhr_dispatch_def foldl_progress settle_def)

lemma upload_progress_calls:
  "progress_calls (uploadFile rnd p tr) =
     (if p then map (progress rnd) (filter lengthComputable (progress_events tr)) else [])"
  by (cases "completion tr")
    (simp_all add: uploadFile_def xhr_dispatch_def foldl_progress settle_def)

text \<open>
  Claim C6. A call of \<^verbatim>\<open>request\<close> (and so of \<^verbatim>\<open>prepareUpload\<close>,
  \<^verbatim>\<open>startPipeline\<close> and \<^verbatim>\<open>getPipelineStatus\<close>) whose \<^verbatim>\<open>fetch\<close> has not settled
  within \<^verbatim>\<open>API_TIMEOUT\<close> = 30000 ms fails with the code \<^verbatim>\<open>TIMEOUT\<close>, and not with
  the \<^verbatim>\<open>NETWORK_ERROR\<close> failure that the abort would otherwise give; an upload that has
  not ended within 600000 ms rejects with the code \<^verbatim>\<open>UPLOAD_TIMEOUT\<close>, and not with
  \<^verbatim>\<open>UPLOAD_ERROR\<close>.
\<close>

theorem timeout_code_surfaced:
  "(API_TIMEOUT < settles_after net \<longrightarrow>
      request net =
        Inl (Thrown_ApiClientError (ApiClientError ''TIMEOUT'' ''Request timeout'' None))
      \<and> request net \<noteq>
        Inl (Thrown_ApiClientError
          (ApiClientError ''NETWORK_ERROR'' (''Network error: '' @ abort_message net) None))
      \<and> prepareUpload net = request net
      \<and> startPipeline net = request net
      \<and> getPipelineStatus net = request net)
   \<and> (xhr_timeout < completes_after tr \<longrightarrow>
      promise (uploadFile rnd onProgress tr) =
        Some (Inl (Thrown_ApiClientError
          (ApiClientError ''UPLOAD_TIMEOUT'' ''Upload timeout'' None)))
      \<and> promise (uploadFile rnd onProgress tr) \<noteq>
        Some (Inl (Thrown_ApiClientError
          (ApiClientError ''UPLOAD_ERROR'' ''Upload network error'' None))))
   \<and> API_TIMEOUT = 30000 \<and> xhr_timeout = 600000"
  by (simp add: request_timeout upload_promise prepareUpload_def startPipeline_def
      getPipelineStatus_def API_TIMEOUT_def xhr_timeout_def)

theorem timeout_code_surfaced_witness:
  "API_TIMEOUT < settles_after slow_network
   \<and> getPipelineStatus slow_network =
       Inl (Thrown_ApiClientError (ApiClientError ''TIMEOUT'' ''Request timeout'' None))
   \<and> xhr_timeout < completes_after (example_transfer 700000 Fails)
   \<and> promise (uploadFile (\<lambda>x. x) True (example_transfer 700000 Fails)) =
       Some (Inl (Thrown_ApiClientError
         (ApiClientError ''UPLOAD_TIMEOUT'' ''Upload timeout'' None)))"
proof -
  have h1: "API_TIMEOUT < settles_after slow_network"
    by (simp add: API_TIMEOUT_def slow_network_def)
  have h2: "xhr_timeout < completes_after (example_transfer 700000 Fails)"
    by (simp add: xhr_timeout_def example_transfer_def)
  show ?thesis
    using h1 h2
      timeout_code_surfaced [of slow_network "example_transfer 700000 Fails" "\<lambda>x. x" True]
    by simp
qed

text \<open>
  Claim C7. Whatever \<^verbatim>\<open>request\<close>, the three verbs built on it and \<^verbatim>\<open>uploadFile\<close>
  throw or reject with is an \<^verbatim>\<open>ApiClientError\<close> (code, message, optional status):
  a rejected \<^verbatim>\<open>fetch\<close>, the abort on timeout, a response that is not \<^verbatim>\<open>ok\<close>, a body
  that cannot be read and a thrown value that is no \<^verbatim>\<open>Error\<close> all end in that shape.
\<close>

theorem failures_normalized:
  "(request net = Inl t \<longrightarrow> is_ApiClientError t)
   \<and> (prepareUpload net = Inl t \<longrightarrow> is_ApiClientError t)
   \<and> (startPipeline net = Inl t \<longrightarrow> is_ApiClientError t)
   \<and> (getPipelineStatus net = Inl t \<longrightarrow> is_ApiClientError t)
   \<and> (promise (uploadFile rnd onProgress tr) = Some (Inl t) \<longrightarrow> is_ApiClientError t)"
  by (auto simp: prepareUpload_def startPipeline_def getPipelineStatus_def
      dest: request_normal upload_normal)

theorem failures_normalized_witness:
  "request (failing_network Thrown_Other) =
     Inl (Thrown_ApiClientError (ApiClientError ''UNKNOWN_ERROR'' ''Unknown error occurred'' None))
   \<and> is_ApiClientError
       (Thrown_ApiClientError (ApiClientError ''UNKNOWN_ERROR'' ''Unknown error occurred'' None))
   \<and> request (failing_network (Thrown_Error ''TypeError'' ''Failed to fetch'')) =
     Inl (Thrown_ApiClientError
       (ApiClientError ''NETWORK_ERROR'' ''Network error: Failed to fetch'' None))
   \<and> is_ApiClientError
       (Thrown_ApiClientError
         (ApiClientError ''NETWORK_ERROR'' ''Network error: Failed to fetch'' None))"
proof -
  have h1: "request (failing_network Thrown_Other) =
     Inl (Thrown_ApiClientError (ApiClientError ''UNKNOWN_ERROR'' ''Unknown error occurred'' None))"
    by (simp add: request_def request_try_def request_catch_def)
  have h2: "request (failing_network (Thrown_Error ''TypeError'' ''Failed to fetch'')) =
     Inl (Thrown_ApiClientError
       (ApiClientError ''NETWORK_ERROR'' ''Network error: Failed to fetch'' None))"
    by (simp add: request_def request_try_def request_catch_def)
  show ?thesis
    using h1 h2
      failures_normalized [of "failing_network Thrown_Other"
        "Thrown_ApiClientError (ApiClientError ''UNKNOWN_ERROR'' ''Unknown error occurred'' None)"]
      failures_normalized [of "failing_network (Thrown_Error ''TypeError'' ''Failed to fetch'')"
        "Thrown_ApiClientError
          (ApiClientError ''NETWORK_ERROR'' ''Network error: Failed to fetch'' None)"]
    by simp
qed

lemma Math_round_mono: "x \<le> y \<Longrightarrow> Math_round x \<le> Math_round y"
  unfolding Math_round_def by (rule floor_mono) simp

lemma percentage_mono:
  assumes m: "mono rnd" and r1: "rnd 1 = 1"
    and T: "0 < T" "total a = T" "total b = T" and l: "loaded a \<le> loaded b"
  shows "percentage rnd a \<le> percentage rnd b"
proof -
  have "rnd 1 \<le> rnd (real T)"
    using T(1) by (intro monoD [OF m]) simp
  then have t: "0 < rnd (real T)" using r1 by simp
  have "rnd (real (loaded a)) \<le> rnd (real (loaded b))"
    using l by (intro monoD [OF m]) simp
  then have "rnd (real (loaded a)) / rnd (real T) \<le> rnd (real (loaded b)) / rnd (real T)"
    using t by (simp only: divide_right_mono less_imp_le)
  then have "rnd (rnd (real (loaded a)) / rnd (real T))
      \<le> rnd (rnd (real (loaded b)) / rnd (real T))"
    by (rule monoD [OF m])
  then have "rnd (rnd (real (loaded a)) / rnd (real T)) * 100
      \<le> rnd (rnd (real (loaded b)) / rnd (real T)) * 100"
    by simp
  then have "rnd (rnd (rnd (real (loaded a)) / rnd (real T)) * 100)
      \<le> rnd (rnd (rnd (real (loaded b)) / rnd (real T)) * 100)"
    by (rule monoD [OF m])
  then show ?thesis
    unfolding percentage_def T(2,3) by (rule Math_round_mono)
qed

lemma percentage_range:
  assumes m: "mono rnd" and r0: "rnd 0 = 0" and r1: "rnd 1 = 1" and r100: "rnd 100 = 100"
    and T: "0 < total a" and l: "loaded a \<le> total a"
  shows "0 \<le> percentage rnd a \<and> percentage rnd a \<le> 100"
proof -
  define x where "x = rnd (real (loaded a))"
  define t where "t = rnd (real (total a))"
  define q where "q = rnd (x / t)"
  define p where "p = rnd (q * 100)"
  have "rnd 1 \<le> t"
    unfolding t_def using T by (intro monoD [OF m]) simp
  then have t: "1 \<le> t" using r1 by simp
  have "rnd 0 \<le> x"
    unfolding x_def by (intro monoD [OF m]) simp
  then have x0: "0 \<le> x" using r0 by simp
  have xt: "x \<le> t"
    unfolding x_def t_def using l by (intro monoD [OF m]) simp
  have d0: "0 \<le> x / t" using t x0 by simp
  have d1: "x / t \<le> 1" using t xt by simp
  have "rnd 0 \<le> q" unfolding q_def using d0 by (rule monoD [OF m])
  then have q0: "0 \<le> q" using r0 by simp
  have "q \<le> rnd 1" unfolding q_def using d1 by (rule monoD [OF m])
  then have q1: "q \<le> 1" using r1 by simp
  have "rnd 0 \<le> p" unfolding p_def using q0 by (intro monoD [OF m]) simp
  then have p0: "0 \<le> p" using r0 by simp
  have "p \<le> rnd 100" unfolding p_def using q1 by (intro monoD [OF m]) simp
  then have p1: "p \<le> 100" using r100 by simp
  have e: "percentage rnd a = Math_round p"
    by (simp only: percentage_def p_def q_def x_def t_def)
  have "Math_round 0 \<le> Math_round p" using p0 by (rule Math_round_mono)
  moreover have "Math_round p \<le> Math_round 100" using p1 by (rule Math_round_mono)
  moreover have "Math_round 0 = 0" "Math_round 100 = 100"
    by (simp_all add: Math_round_def)
  ultimately show ?thesis unfolding e by simp
qed

lemma percentages_sorted:
  assumes m: "mono rnd" and r1: "rnd 1 = 1" and T: "0 < T"
    and tot: "\<forall>ev \<in> set evs. total ev = T"
    and srt: "sorted (map loaded evs)"
  shows "sorted (map (percentage rnd) (filter lengthComputable evs))"
proof -
  from srt have "sorted_wrt (\<lambda>a b. loaded a \<le> loaded b) evs"
    by (simp add: sorted_map)
  then have "sorted_wrt (\<lambda>a b. percentage rnd a \<le> percentage rnd b) evs"
  proof (rule sorted_wrt_mono_rel [rotated])
    fix a b
    assume "a \<in> set evs" "b \<in> set evs" "loaded a \<le> loaded b"
    with tot show "percentage rnd a \<le> percentage rnd b"
      by (intro percentage_mono [OF m r1 T]) auto
  qed
  then have "sorted_wrt (\<lambda>a b. percentage rnd a \<le> percentage rnd b)
      (filter lengthComputable evs)"
    by (rule sorted_wrt_filter)
  then show ?thesis by (simp add: sorted_map)
qed

text \<open>
  Claim C8. For progress events of one upload, all reporting the same \<^verbatim>\<open>total\<close> \<open>T > 0\<close>
  and \<^verbatim>\<open>loaded\<close> values between 0 and \<open>T\<close> that do not decrease from one event to the
  next, the progress callback receives finite integers between 0 and 100 that do not
  decrease. The rounding \<open>rnd\<close> of the arithmetic is only required to be monotone and exact
  at 0, 1 and 100, as rounding to the nearest representable number is.
\<close>

theorem progress_percentages_monotone:
  assumes "mono rnd" and "rnd 0 = 0" and "rnd 1 = 1" and "rnd 100 = 100"
    and "0 < T"
    and "\<forall>ev \<in> set (progress_events tr). total ev = T \<and> loaded ev \<le> T"
    and "sorted (map loaded (progress_events tr))"
  shows "\<exists>ps. progress_calls (uploadFile rnd onProgress tr) = map Finite ps
           \<and> sorted ps \<and> (\<forall>p \<in> set ps. 0 \<le> p \<and> p \<le> 100)"
proof (cases onProgress)
  case False
  then have "progress_calls (uploadFile rnd onProgress tr) = map Finite []"
    by (simp add: upload_progress_calls)
  then show ?thesis by (intro exI [of _ "[]"]) simp
next
  case True
  let ?evs = "filter lengthComputable (progress_events tr)"
  let ?ps = "map (percentage rnd) ?evs"
  have pos: "\<forall>ev \<in> set ?evs. total ev \<noteq> 0"
    using assms(5,6) by auto
  have "map (progress rnd) ?evs = map (\<lambda>ev. Finite (percentage rnd ev)) ?evs"
    by (rule map_cong [OF refl]) (use pos in \<open>simp add: progress_def\<close>)
  then have calls: "progress_calls (uploadFile rnd onProgress tr) = map Finite ?ps"
    using True by (simp add: upload_progress_calls o_def)
  have srt: "sorted ?ps"
    using assms(6) by (intro percentages_sorted [OF assms(1,3,5) _ assms(7)]) simp
  have rng: "\<forall>p \<in> set ?ps. 0 \<le> p \<and> p \<le> 100"
  proof
    fix p assume "p \<in> set ?ps"
    then obtain ev where ev: "ev \<in> set (progress_events tr)" "p = percentage rnd ev"
      by auto
    with assms(5,6) have "0 < total ev" "loaded ev \<le> total ev" by auto
    then show "0 \<le> p \<and> p \<le> 100"
      unfolding ev(2) by (rule percentage_range [OF assms(1-4)])
  qed
  from calls srt rng show ?thesis by blast
qed

theorem progress_percentages_monotone_witness:
  "(\<exists>ps. progress_calls (uploadFile (\<lambda>x. x) True (example_transfer 5000 (Completes 200 ''OK'')))
            = map Finite ps
        \<and> sorted ps \<and> (\<forall>p \<in> set ps. 0 \<le> p \<and> p \<le> 100))
   \<and> progress_calls (uploadFile (\<lambda>x. x) True (example_transfer 5000 (Completes 200 ''OK'')))
       = [Finite 0, Finite 50, Finite 100]"
proof -
  let ?tr = "example_transfer 5000 (Completes 200 ''OK'')"
  have h1: "mono (\<lambda>x::real. x)" by (simp add: mono_def)
  have h2: "\<forall>ev \<in> set (progress_events ?tr). total ev = 200 \<and> loaded ev \<le> 200"
    by (simp add: example_transfer_def)
  have h3: "sorted (map loaded (progress_events ?tr))"
    by (simp add: example_transfer_def)
  have v: "progress_calls (uploadFile (\<lambda>x. x) True ?tr) = [Finite 0, Finite 50, Finite 100]"
    by (simp add: upload_progress_calls example_transfer_def progress_def percentage_def
        Math_round_def)
  from progress_percentages_monotone [of "\<lambda>x. x" 200 ?tr True, OF h1 _ _ _ _ h2 h3] v
  show ?thesis by simp
qed

section \<open>Properties of the poller\<close>

lemmas poll_eval =
  poll_def poll_try_def poll_catch_def Let_def maxDuration_def pollInterval_def
  maxConsecutiveErrors_def truthy_def or_else_def example_status_def example_cycle_def
  pollPipelineStatus_def effects_def

lemma pollLoop_append:
  "pollLoop s c (xs @ ys) =
    (case pollLoop s c xs of
       (trs, Stopped) \<Rightarrow> (trs, Stopped)
     | (trs, Pending c') \<Rightarrow> (case pollLoop s c' ys of (trs', e) \<Rightarrow> (trs @ trs', e)))"
  by (induction xs arbitrary: c) (auto split: prod.splits poll_end.splits)

lemma poll_ceiling:
  assumes "now cy - s > maxDuration"
  shows "poll s c cy =
    ([OnError ''Pipeline timeout - maximum duration exceeded (24 hours)''], Stopped)"
  using assms by (simp add: poll_def)





lemma poll_Pending_quiet:
  assumes "poll s c cy = (tr, Pending c')" and "callbacks_return cy"
  shows "filter is_OnError tr = [] \<and> filter is_OnComplete tr = []"
  using assms
  by (auto simp: poll_def poll_try_def poll_catch_def callbacks_return_def Let_def
      split: if_splits sum.splits)

lemma pollLoop_Pending_quiet:
  assumes "pollLoop s c cys = (trs, Pending c')" and "\<forall>cy \<in> set cys. callbacks_return cy"
  shows "filter is_OnError (concat trs) = [] \<and> filter is_OnComplete (concat trs) = []"
  using assms
proof (induction cys arbitrary: c trs)
  case Nil
  then show ?case by simp
next
  case (Cons cy cys)
  then show ?case
    by (auto split: prod.splits poll_end.splits dest: poll_Pending_quiet)
qed

lemma results_append: "results (xs @ ys) = results xs @ results ys"
  by (induction xs rule: results.induct) auto


lemma run_extend:
  assumes "pollPipelineStatus s pre = (trs, Pending c)"
      and "poll s c cy = (tr, Stopped)"
  shows "pollPipelineStatus s (pre @ cy # rest) = (trs @ [tr], Stopped)"
  using assms by (simp add: pollPipelineStatus_def pollLoop_append)

lemma run_quiet:
  assumes "pollPipelineStatus s pre = (trs, Pending c)"
      and "\<forall>cy \<in> set pre. callbacks_return cy"
  shows "filter is_OnError (concat trs) = []" and "filter is_OnComplete (concat trs) = []"
  using pollLoop_Pending_quiet [of s 0 pre trs c] assms
  by (simp_all add: pollPipelineStatus_def)

text \<open>
  Claim C4. When a run that has not ended reaches a cycle at whose start more than
  24 hours (86400000 ms) have passed on the clock since the start of the polling,
  \<^verbatim>\<open>onError\<close> is invoked with the message
  \<^verbatim>\<open>Pipeline timeout - maximum duration exceeded (24 hours)\<close> and the run ends: from
  that point on there is no \<^verbatim>\<open>onComplete\<close>, no other \<^verbatim>\<open>onError\<close> and no
  \<^verbatim>\<open>getPipelineStatus\<close> call. When the callbacks returned in the cycles before, the run
  contains no \<^verbatim>\<open>onComplete\<close> at all and this is its only \<^verbatim>\<open>onError\<close>.
\<close>

theorem duration_ceiling_abandons:
  assumes "pollPipelineStatus s pre = (trs, Pending c)"
      and "now cy - s > 24 * 60 * 60 * 1000"
  shows "pollPipelineStatus s (pre @ cy # rest) =
           (trs @ [[OnError ''Pipeline timeout - maximum duration exceeded (24 hours)'']],
            Stopped)
       \<and> results (effects (pollPipelineStatus s (pre @ cy # rest))) =
           results (effects (pollPipelineStatus s pre))
       \<and> filter is_OnComplete (effects (pollPipelineStatus s (pre @ cy # rest))) =
           filter is_OnComplete (effects (pollPipelineStatus s pre))
       \<and> filter is_OnError (effects (pollPipelineStatus s (pre @ cy # rest))) =
           filter is_OnError (effects (pollPipelineStatus s pre)) @
           [OnError ''Pipeline timeout - maximum duration exceeded (24 hours)'']
       \<and> ((\<forall>cy \<in> set pre. callbacks_return cy) \<longrightarrow>
           filter is_OnComplete (effects (pollPipelineStatus s (pre @ cy # rest))) = []
         \<and> filter is_OnError (effects (pollPipelineStatus s (pre @ cy # rest))) =
             [OnError ''Pipeline timeout - maximum duration exceeded (24 hours)''])"
proof -
  have p: "poll s c cy =
      ([OnError ''Pipeline timeout - maximum duration exceeded (24 hours)''], Stopped)"
    using assms(2) by (simp add: poll_ceiling maxDuration_def)
  have run: "pollPipelineStatus s (pre @ cy # rest) =
           (trs @ [[OnError ''Pipeline timeout - maximum duration exceeded (24 hours)'']],
            Stopped)"
    by (rule run_extend [OF assms(1) p])
  show ?thesis
    unfolding run using run_quiet [OF assms(1)]
    by (simp add: effects_def assms(1) results_append)
qed

theorem duration_ceiling_abandons_witness:
  "pollPipelineStatus 500
     [example_cycle 500 (Inr (example_status ''processing'' None)),
      example_cycle 86400501 (Inr (example_status ''completed'' None)),
      example_cycle 86403600 (Inr (example_status ''completed'' None))] =
   ([[GetPipelineStatus (Inr (example_status ''processing'' None)),
      OnUpdate (example_status ''processing'' None), SetTimeout 3000],
     [OnError ''Pipeline timeout - maximum duration exceeded (24 hours)'']], Stopped)"
proof -
  let ?ok = "example_status ''processing'' None"
  let ?done = "example_status ''completed'' None"
  have h1: "pollPipelineStatus 500 [example_cycle 500 (Inr ?ok)] =
      ([[GetPipelineStatus (Inr ?ok), OnUpdate ?ok, SetTimeout 3000]], Pending 0)"
    by (simp add: poll_eval)
  have h2: "now (example_cycle 86400501 (Inr ?done)) - 500 > 24 * 60 * 60 * 1000"
    by (simp add: example_cycle_def)
  from duration_ceiling_abandons [OF h1 h2, of "[example_cycle 86403600 (Inr ?done)]"]
  show ?thesis by simp
qed

















end
